theory Spec2Isabelle
  imports Complex_Main
begin

section \<open>partial\_trueskill: the rating model of \<open>domain.py\<close>\<close>

text \<open>
  The module keeps ratings as mutable objects that events and totalities refer to. The
  embedding keeps them in a heap: an address stands for an object, and a rating object
  holds the fields of its dataclass. Python floats are taken as real numbers, so rounding,
  overflow, infinities and NaN are outside this development; every exception the arithmetic
  raises on reals (division by zero, the square root of a negative number, running out of
  interpreter stack on nested totalities) is a value of \<open>error\<close>.
\<close>

subsection \<open>Data\<close>

datatype error = RecursionError | ZeroDivisionError | ValueError

type_synonym addr = nat

record Parameters =
  static_performance_spread :: real
  constant_additional_variance :: real

definition beta :: "Parameters \<Rightarrow> real" where
  "beta p = static_performance_spread p"

definition tau :: "Parameters \<Rightarrow> real" where
  "tau p = constant_additional_variance p"

text \<open>
  The three concrete classes, with their dataclass fields in declaration order:
  \<open>SkillBasedRating(mean, variance)\<close>, \<open>ConstantRating(is_set, variance, mean)\<close> and
  \<open>RateableTotality(name, ratings)\<close>, the last holding references to its children.
\<close>

datatype Rating =
  SkillBasedRating real real
| ConstantRating bool real real
| RateableTotality string "addr list"

type_synonym heap = "addr \<Rightarrow> Rating"

text \<open>
  An event stores its four inputs, its name, and the five statistics that
  \<open>__post_init__\<close> computes once.
\<close>

record Event =
  weight :: real
  winner :: addr
  loser :: addr
  parameters :: Parameters
  name :: string
  delta :: real
  std_dev_of_performances :: real
  z_factor :: real
  mean_scale :: real
  variance_scale :: real

subsection \<open>Arithmetic that can raise\<close>

text \<open>\<open>x / y\<close> on floats raises \<open>ZeroDivisionError\<close> when \<open>y\<close> is zero.\<close>

definition py_div :: "real \<Rightarrow> real \<Rightarrow> error + real" where
  "py_div x y = (if y = 0 then Inl ZeroDivisionError else Inr (x / y))"

text \<open>\<open>math.sqrt\<close> raises \<open>ValueError\<close> (math domain error) on a negative argument.\<close>

definition math_sqrt :: "real \<Rightarrow> error + real" where
  "math_sqrt x = (if x < 0 then Inl ValueError else Inr (sqrt x))"

text \<open>
  A list comprehension evaluates its items in order and stops at the first exception;
  \<open>sum\<close> then adds from the left, starting at 0.
\<close>

fun collect :: "(error + 'a) list \<Rightarrow> error + 'a list" where
  "collect [] = Inr []"
| "collect (r # rs) =
     (case r of
        Inl e \<Rightarrow> Inl e
      | Inr x \<Rightarrow> (case collect rs of Inl e \<Rightarrow> Inl e | Inr xs \<Rightarrow> Inr (x # xs)))"

definition py_sum :: "'a::monoid_add list \<Rightarrow> 'a" where
  "py_sum xs = foldl (+) 0 xs"

text \<open>
  The standard normal distribution of the \<open>statistics\<close> module, \<open>NormalDist()\<close> with
  \<open>mu = 0\<close> and \<open>sigma = 1\<close>: the density is \<open>exp (- x\<^sup>2 / 2) / sqrt (2 pi)\<close> and the
  distribution function is \<open>(1 + erf (x / sqrt 2)) / 2\<close>, the error function given by its
  power series.
\<close>

definition erf :: "real \<Rightarrow> real" where
  "erf x = 2 / sqrt pi * (\<Sum>n. (- 1) ^ n * x ^ (2 * n + 1) / (fact n * real (2 * n + 1)))"

definition pdf :: "real \<Rightarrow> real" where
  "pdf x = exp (x * x / (- 2)) / sqrt (2 * pi)"

definition cdf :: "real \<Rightarrow> real" where
  "cdf x = 1 / 2 * (1 + erf (x / sqrt 2))"

subsection \<open>Reading a rating\<close>

text \<open>
  \<open>mean\<close>, \<open>variance\<close> and \<open>beta_count\<close> are stored fields (or class constants) of the two
  simple classes and properties of a totality, which sums over its children at every
  read. The first argument bounds how many levels of nested totalities a read may enter:
  a totality that contains itself exhausts any bound, which is the interpreter's
  \<open>RecursionError\<close>.
\<close>

fun mean :: "nat \<Rightarrow> heap \<Rightarrow> addr \<Rightarrow> error + real" where
  "mean 0 h a =
     (case h a of
        SkillBasedRating m v \<Rightarrow> Inr m
      | ConstantRating s v m \<Rightarrow> Inr m
      | RateableTotality nm rs \<Rightarrow> Inl RecursionError)"
| "mean (Suc d) h a =
     (case h a of
        SkillBasedRating m v \<Rightarrow> Inr m
      | ConstantRating s v m \<Rightarrow> Inr m
      | RateableTotality nm rs \<Rightarrow>
          (case collect (map (mean d h) rs) of
             Inl e \<Rightarrow> Inl e
           | Inr ms \<Rightarrow> Inr (py_sum ms)))"

fun variance :: "nat \<Rightarrow> heap \<Rightarrow> addr \<Rightarrow> error + real" where
  "variance 0 h a =
     (case h a of
        SkillBasedRating m v \<Rightarrow> Inr v
      | ConstantRating s v m \<Rightarrow> Inr v
      | RateableTotality nm rs \<Rightarrow> Inl RecursionError)"
| "variance (Suc d) h a =
     (case h a of
        SkillBasedRating m v \<Rightarrow> Inr v
      | ConstantRating s v m \<Rightarrow> Inr v
      | RateableTotality nm rs \<Rightarrow>
          (case collect (map (variance d h) rs) of
             Inl e \<Rightarrow> Inl e
           | Inr vs \<Rightarrow> Inr (py_sum vs)))"

fun beta_count :: "nat \<Rightarrow> heap \<Rightarrow> addr \<Rightarrow> error + int" where
  "beta_count 0 h a =
     (case h a of
        SkillBasedRating m v \<Rightarrow> Inr 1
      | ConstantRating s v m \<Rightarrow> Inr 0
      | RateableTotality nm rs \<Rightarrow> Inl RecursionError)"
| "beta_count (Suc d) h a =
     (case h a of
        SkillBasedRating m v \<Rightarrow> Inr 1
      | ConstantRating s v m \<Rightarrow> Inr 0
      | RateableTotality nm rs \<Rightarrow>
          (case collect (map (beta_count d h) rs) of
             Inl e \<Rightarrow> Inl e
           | Inr bs \<Rightarrow> Inr (py_sum bs)))"

text \<open>
  \<open>Rating.sigma_variance_for_std_dev\<close> squares the variance field; the override of
  \<open>RateableTotality\<close> sums what its children return.
\<close>

fun sigma_variance_for_std_dev :: "nat \<Rightarrow> heap \<Rightarrow> addr \<Rightarrow> error + real" where
  "sigma_variance_for_std_dev 0 h a =
     (case h a of
        SkillBasedRating m v \<Rightarrow> Inr (v ^ 2)
      | ConstantRating s v m \<Rightarrow> Inr (v ^ 2)
      | RateableTotality nm rs \<Rightarrow> Inl RecursionError)"
| "sigma_variance_for_std_dev (Suc d) h a =
     (case h a of
        SkillBasedRating m v \<Rightarrow> Inr (v ^ 2)
      | ConstantRating s v m \<Rightarrow> Inr (v ^ 2)
      | RateableTotality nm rs \<Rightarrow>
          (case collect (map (sigma_variance_for_std_dev d h) rs) of
             Inl e \<Rightarrow> Inl e
           | Inr ss \<Rightarrow> Inr (py_sum ss)))"

subsection \<open>Equality of ratings\<close>

text \<open>
  The three classes are declared with \<open>@dataclass\<close> and no \<open>eq=False\<close>, so \<open>==\<close> on two
  ratings runs the generated \<open>__eq__\<close>: objects of the same class are equal when their
  fields are, and objects of different classes fall back to identity. The fields of a
  totality include the list of children, and two lists are equal when they have the same
  length and their items are pairwise the same object or \<open>==\<close>.
\<close>

fun list_eq :: "(addr \<Rightarrow> addr \<Rightarrow> error + bool) \<Rightarrow> addr list \<Rightarrow> addr list \<Rightarrow> error + bool" where
  "list_eq eq [] [] = Inr True"
| "list_eq eq (x # xs) (y # ys) =
     (if x = y then list_eq eq xs ys
      else (case eq x y of
              Inl e \<Rightarrow> Inl e
            | Inr b \<Rightarrow> if b then list_eq eq xs ys else Inr False))"
| "list_eq eq [] (y # ys) = Inr False"
| "list_eq eq (x # xs) [] = Inr False"

fun dataclass_eq :: "nat \<Rightarrow> heap \<Rightarrow> addr \<Rightarrow> addr \<Rightarrow> error + bool" where
  "dataclass_eq 0 h a b =
     (case h a of
        SkillBasedRating m v \<Rightarrow>
          (case h b of
             SkillBasedRating m' v' \<Rightarrow> Inr (m = m' \<and> v = v')
           | ConstantRating s' v' m' \<Rightarrow> Inr (a = b)
           | RateableTotality nm' rs' \<Rightarrow> Inr (a = b))
      | ConstantRating s v m \<Rightarrow>
          (case h b of
             SkillBasedRating m' v' \<Rightarrow> Inr (a = b)
           | ConstantRating s' v' m' \<Rightarrow> Inr (s = s' \<and> v = v' \<and> m = m')
           | RateableTotality nm' rs' \<Rightarrow> Inr (a = b))
      | RateableTotality nm rs \<Rightarrow>
          (case h b of
             SkillBasedRating m' v' \<Rightarrow> Inr (a = b)
           | ConstantRating s' v' m' \<Rightarrow> Inr (a = b)
           | RateableTotality nm' rs' \<Rightarrow>
               if nm \<noteq> nm' then Inr False
               else if length rs \<noteq> length rs' then Inr False
               else list_eq (\<lambda>x y. Inl RecursionError) rs rs'))"
| "dataclass_eq (Suc d) h a b =
     (case h a of
        SkillBasedRating m v \<Rightarrow>
          (case h b of
             SkillBasedRating m' v' \<Rightarrow> Inr (m = m' \<and> v = v')
           | ConstantRating s' v' m' \<Rightarrow> Inr (a = b)
           | RateableTotality nm' rs' \<Rightarrow> Inr (a = b))
      | ConstantRating s v m \<Rightarrow>
          (case h b of
             SkillBasedRating m' v' \<Rightarrow> Inr (a = b)
           | ConstantRating s' v' m' \<Rightarrow> Inr (s = s' \<and> v = v' \<and> m = m')
           | RateableTotality nm' rs' \<Rightarrow> Inr (a = b))
      | RateableTotality nm rs \<Rightarrow>
          (case h b of
             SkillBasedRating m' v' \<Rightarrow> Inr (a = b)
           | ConstantRating s' v' m' \<Rightarrow> Inr (a = b)
           | RateableTotality nm' rs' \<Rightarrow>
               if nm \<noteq> nm' then Inr False
               else if length rs \<noteq> length rs' then Inr False
               else list_eq (\<lambda>x y. dataclass_eq d h x y) rs rs'))"

subsection \<open>Events\<close>

text \<open>
  \<open>Event.direction_of_weight\<close>: \<open>if rating == self.winner: return 1\<close>, else \<open>-1\<close>.
\<close>

definition direction_of_weight :: "nat \<Rightarrow> heap \<Rightarrow> Event \<Rightarrow> addr \<Rightarrow> error + int" where
  "direction_of_weight d h e r =
     (case dataclass_eq d h r (winner e) of
        Inl err \<Rightarrow> Inl err
      | Inr b \<Rightarrow> Inr (if b then 1 else - 1))"

text \<open>
  \<open>Event.__post_init__\<close> computes the five statistics in this order, each by its own
  method: \<open>_delta\<close>, \<open>_std_dev_of_performances\<close>, \<open>_z_factor\<close>, \<open>_mean_scale\<close> and
  \<open>_variance_scale\<close>. The weight is stored and not looked at.
\<close>

definition Event_delta :: "nat \<Rightarrow> heap \<Rightarrow> addr \<Rightarrow> addr \<Rightarrow> error + real" where
  "Event_delta d h win los =
     (case mean d h win of
        Inl err \<Rightarrow> Inl err
      | Inr mw \<Rightarrow>
          (case mean d h los of
             Inl err \<Rightarrow> Inl err
           | Inr ml \<Rightarrow> Inr (mw - ml)))"

definition Event_std_dev_of_performances ::
  "nat \<Rightarrow> heap \<Rightarrow> addr \<Rightarrow> addr \<Rightarrow> Parameters \<Rightarrow> error + real" where
  "Event_std_dev_of_performances d h win los p =
     (case beta_count d h win of
        Inl err \<Rightarrow> Inl err
      | Inr bw \<Rightarrow>
          (case beta_count d h los of
             Inl err \<Rightarrow> Inl err
           | Inr bl \<Rightarrow>
               (case sigma_variance_for_std_dev d h win of
                  Inl err \<Rightarrow> Inl err
                | Inr sw \<Rightarrow>
                    (case sigma_variance_for_std_dev d h los of
                       Inl err \<Rightarrow> Inl err
                     | Inr sl \<Rightarrow>
                         math_sqrt
                           (real_of_int (bw + bl) * static_performance_spread p ^ 2
                             + sw + sl)))))"

definition Event_z_factor :: "real \<Rightarrow> real \<Rightarrow> error + real" where
  "Event_z_factor dl c = py_div dl c"

definition Event_mean_scale :: "real \<Rightarrow> error + real" where
  "Event_mean_scale z = py_div (pdf z) (cdf z)"

definition Event_variance_scale :: "real \<Rightarrow> real \<Rightarrow> real" where
  "Event_variance_scale v z = v * (v + z)"

definition Event_init ::
  "nat \<Rightarrow> heap \<Rightarrow> real \<Rightarrow> addr \<Rightarrow> addr \<Rightarrow> Parameters \<Rightarrow> string \<Rightarrow> error + Event" where
  "Event_init d h w win los p nm =
     (case Event_delta d h win los of
        Inl err \<Rightarrow> Inl err
      | Inr dl \<Rightarrow>
          (case Event_std_dev_of_performances d h win los p of
             Inl err \<Rightarrow> Inl err
           | Inr c \<Rightarrow>
               (case Event_z_factor dl c of
                  Inl err \<Rightarrow> Inl err
                | Inr z \<Rightarrow>
                    (case Event_mean_scale z of
                       Inl err \<Rightarrow> Inl err
                     | Inr v \<Rightarrow>
                         Inr \<lparr>weight = w, winner = win, loser = los, parameters = p,
                              name = nm, delta = dl, std_dev_of_performances = c,
                              z_factor = z, mean_scale = v,
                              variance_scale = Event_variance_scale v z\<rparr>))))"

subsection \<open>The update formulas\<close>

text \<open>
  \<open>won_or_lost\<close> is \<open>1\<close>, \<open>-1\<close> or \<open>None\<close>; \<open>None\<close> asks the event for the direction.
  Both functions only read the rating and the event and return a number.
\<close>

definition standard_mean_update ::
  "nat \<Rightarrow> heap \<Rightarrow> addr \<Rightarrow> Event \<Rightarrow> int option \<Rightarrow> error + real" where
  "standard_mean_update d h r e won_or_lost =
     (case (case won_or_lost of
              None \<Rightarrow> direction_of_weight d h e r
            | Some x \<Rightarrow> Inr x) of
        Inl err \<Rightarrow> Inl err
      | Inr wl \<Rightarrow>
          (case mean d h r of
             Inl err \<Rightarrow> Inl err
           | Inr m \<Rightarrow>
               (case variance d h r of
                  Inl err \<Rightarrow> Inl err
                | Inr v \<Rightarrow>
                    (case py_div (v ^ 2 + tau (parameters e) ^ 2)
                            (std_dev_of_performances e) of
                       Inl err \<Rightarrow> Inl err
                     | Inr q \<Rightarrow>
                         Inr (m + (weight e * real_of_int wl) * (mean_scale e * q))))))"

definition standard_variance_update :: "nat \<Rightarrow> heap \<Rightarrow> addr \<Rightarrow> Event \<Rightarrow> error + real" where
  "standard_variance_update d h r e =
     (let tau_sqr = constant_additional_variance (parameters e) ^ 2 in
      case variance d h r of
        Inl err \<Rightarrow> Inl err
      | Inr v \<Rightarrow>
          (let variance_sqr = v ^ 2 in
           case py_div (variance_sqr + tau_sqr) (std_dev_of_performances e ^ 2) of
             Inl err \<Rightarrow> Inl err
           | Inr q \<Rightarrow>
               math_sqrt
                 ((variance_sqr + tau_sqr)
                   * (1 - \<bar>weight e\<bar> * (variance_scale e * q)))))"

subsection \<open>Updating ratings in place\<close>

text \<open>
  The methods assign to fields of the rating objects, so they take the heap and return the
  new one. A totality loops over its children in order; an exception leaves the loop.
\<close>

fun for_each :: "(heap \<Rightarrow> addr \<Rightarrow> error + heap) \<Rightarrow> heap \<Rightarrow> addr list \<Rightarrow> error + heap" where
  "for_each f h [] = Inr h"
| "for_each f h (r # rs) =
     (case f h r of
        Inl err \<Rightarrow> Inl err
      | Inr h' \<Rightarrow> for_each f h' rs)"

fun update_mean :: "nat \<Rightarrow> heap \<Rightarrow> addr \<Rightarrow> Event \<Rightarrow> int option \<Rightarrow> error + heap" where
  "update_mean 0 h a e won_or_lost =
     (case h a of
        SkillBasedRating m v \<Rightarrow>
          (case standard_mean_update 0 h a e won_or_lost of
             Inl err \<Rightarrow> Inl err
           | Inr m' \<Rightarrow> Inr (h(a := SkillBasedRating m' v)))
      | ConstantRating s v m \<Rightarrow>
          if s then Inr h
          else (case standard_mean_update 0 h a e won_or_lost of
                  Inl err \<Rightarrow> Inl err
                | Inr m' \<Rightarrow> Inr (h(a := ConstantRating s v m')))
      | RateableTotality nm rs \<Rightarrow> Inl RecursionError)"
| "update_mean (Suc d) h a e won_or_lost =
     (case h a of
        SkillBasedRating m v \<Rightarrow>
          (case standard_mean_update (Suc d) h a e won_or_lost of
             Inl err \<Rightarrow> Inl err
           | Inr m' \<Rightarrow> Inr (h(a := SkillBasedRating m' v)))
      | ConstantRating s v m \<Rightarrow>
          if s then Inr h
          else (case standard_mean_update (Suc d) h a e won_or_lost of
                  Inl err \<Rightarrow> Inl err
                | Inr m' \<Rightarrow> Inr (h(a := ConstantRating s v m')))
      | RateableTotality nm rs \<Rightarrow>
          (case direction_of_weight (Suc d) h e a of
             Inl err \<Rightarrow> Inl err
           | Inr wl \<Rightarrow> for_each (\<lambda>h' r. update_mean d h' r e (Some wl)) h rs))"

fun update_variance :: "nat \<Rightarrow> heap \<Rightarrow> addr \<Rightarrow> Event \<Rightarrow> error + heap" where
  "update_variance 0 h a e =
     (case h a of
        SkillBasedRating m v \<Rightarrow>
          (case standard_variance_update 0 h a e of
             Inl err \<Rightarrow> Inl err
           | Inr v' \<Rightarrow> Inr (h(a := SkillBasedRating m v')))
      | ConstantRating s v m \<Rightarrow>
          if s then Inr h
          else (case standard_variance_update 0 h a e of
                  Inl err \<Rightarrow> Inl err
                | Inr v' \<Rightarrow> Inr (h(a := ConstantRating s v' m)))
      | RateableTotality nm rs \<Rightarrow> Inl RecursionError)"
| "update_variance (Suc d) h a e =
     (case h a of
        SkillBasedRating m v \<Rightarrow>
          (case standard_variance_update (Suc d) h a e of
             Inl err \<Rightarrow> Inl err
           | Inr v' \<Rightarrow> Inr (h(a := SkillBasedRating m v')))
      | ConstantRating s v m \<Rightarrow>
          if s then Inr h
          else (case standard_variance_update (Suc d) h a e of
                  Inl err \<Rightarrow> Inl err
                | Inr v' \<Rightarrow> Inr (h(a := ConstantRating s v' m)))
      | RateableTotality nm rs \<Rightarrow> for_each (\<lambda>h' r. update_variance d h' r e) h rs)"

text \<open>\<open>Rating.update_mean_and_variance\<close>: the mean first, then the variance.\<close>

definition update_mean_and_variance :: "nat \<Rightarrow> heap \<Rightarrow> addr \<Rightarrow> Event \<Rightarrow> error + heap" where
  "update_mean_and_variance d h a e =
     (case update_mean d h a e None of
        Inl err \<Rightarrow> Inl err
      | Inr h' \<Rightarrow> update_variance d h' a e)"

subsection \<open>The scenario of two new players\<close>

text \<open>
  \<open>Parameters(25/6, 25/300)\<close> and two distinct objects \<open>SkillBasedRating(25, 25/3)\<close>, the
  winner at address 0 and the loser at address 1.
\<close>

definition scenario_params :: Parameters where
  "scenario_params =
     \<lparr>static_performance_spread = 25 / 6, constant_additional_variance = 25 / 300\<rparr>"

definition scenario_heap :: heap where
  "scenario_heap =
     (\<lambda>a. ConstantRating True 0 0)
       (0 := SkillBasedRating 25 (25 / 3), 1 := SkillBasedRating 25 (25 / 3))"

definition scenario_event :: Event where
  "scenario_event = projr (Event_init 0 scenario_heap 1 0 1 scenario_params [])"

text \<open>
  Further test data: the same two players under a large \<open>tau\<close>, a heap with a team of a
  skill rating and an unlocked constant rating next to a locked one, and a team one of
  whose members was built with a negative variance.
\<close>

definition drifting_params :: Parameters where
  "drifting_params =
     \<lparr>static_performance_spread = 25 / 6, constant_additional_variance = 100\<rparr>"

definition team_heap :: heap where
  "team_heap =
     (\<lambda>a. ConstantRating True 0 0)
       (0 := SkillBasedRating 25 (25 / 3), 1 := ConstantRating False 2 30,
        2 := RateableTotality ''team'' [0, 1], 3 := ConstantRating True 4 20)"



section \<open>Properties\<close>

subsection \<open>Sums and list comprehensions\<close>

lemma foldl_add_sum_list: "foldl (+) a xs = a + sum_list (xs::'a::comm_monoid_add list)"
  by (induction xs arbitrary: a) (simp_all add: add.assoc)

lemma py_sum_sum_list: "py_sum xs = sum_list (xs::'a::comm_monoid_add list)"
  by (simp add: py_sum_def foldl_add_sum_list)

lemma collect_map_Inr:
  "collect (map f rs) = Inr xs \<Longrightarrow>
     length xs = length rs \<and> (\<forall>i<length rs. f (rs ! i) = Inr (xs ! i))"
proof (induction rs arbitrary: xs)
  case Nil
  then show ?case by simp
next
  case (Cons r rs)
  from Cons.prems obtain y ys where
    y: "f r = Inr y" and ys: "collect (map f rs) = Inr ys" and xs: "xs = y # ys"
    by (auto split: sum.splits)
  from Cons.IH [OF ys] have
    len: "length ys = length rs" and nth: "\<forall>i<length rs. f (rs ! i) = Inr (ys ! i)"
    by simp_all
  show ?case
  proof (intro conjI allI impI)
    show "length xs = length (r # rs)" using len xs by simp
  next
    fix i assume "i < length (r # rs)"
    then show "f ((r # rs) ! i) = Inr (xs ! i)"
      using y nth xs by (cases i) simp_all
  qed
qed

lemma collect_map_all:
  assumes "collect (map f rs) = Inr xs" and "\<And>r x. f r = Inr x \<Longrightarrow> P x"
  shows "\<forall>x\<in>set xs. P x"
proof
  fix x assume "x \<in> set xs"
  then obtain i where i: "i < length xs" and x: "x = xs ! i"
    by (auto simp: in_set_conv_nth)
  from collect_map_Inr [OF assms(1)] i have "f (rs ! i) = Inr (xs ! i)" by simp
  then show "P x" using assms(2) x by simp
qed

subsection \<open>Reads never go negative where the formulas need it\<close>

lemma beta_count_nonneg: "beta_count d h a = Inr b \<Longrightarrow> 0 \<le> b"
proof (induction d arbitrary: a b)
  case 0
  then show ?case by (cases "h a") auto
next
  case (Suc d)
  show ?case
  proof (cases "h a")
    case (RateableTotality nm rs)
    with Suc.prems obtain bs where
      bs: "collect (map (beta_count d h) rs) = Inr bs" and b: "b = py_sum bs"
      by (auto split: sum.splits)
    have "\<forall>x\<in>set bs. 0 \<le> x"
      using collect_map_all [OF bs] Suc.IH by blast
    then show ?thesis using b by (simp add: py_sum_sum_list sum_list_nonneg)
  qed (use Suc.prems in auto)
qed

lemma sigma_variance_nonneg: "sigma_variance_for_std_dev d h a = Inr s \<Longrightarrow> 0 \<le> s"
proof (induction d arbitrary: a s)
  case 0
  then show ?case by (cases "h a") auto
next
  case (Suc d)
  show ?case
  proof (cases "h a")
    case (RateableTotality nm rs)
    with Suc.prems obtain ss where
      ss: "collect (map (sigma_variance_for_std_dev d h) rs) = Inr ss" and s: "s = py_sum ss"
      by (auto split: sum.splits)
    have "\<forall>x\<in>set ss. 0 \<le> x"
      using collect_map_all [OF ss] Suc.IH by blast
    then show ?thesis using s by (simp add: py_sum_sum_list sum_list_nonneg)
  qed (use Suc.prems in auto)
qed

subsection \<open>The normal distribution at 0\<close>

lemma erf_0: "erf 0 = 0"
  by (simp add: erf_def)

lemma cdf_0: "cdf 0 = 1 / 2"
  by (simp add: cdf_def erf_0)

lemma pdf_0: "pdf 0 = 1 / sqrt (2 * pi)"
  by (simp add: pdf_def)

lemma two_over_pi: "2 / sqrt (2 * pi) * (2 / sqrt (2 * pi)) = 2 / pi"
proof -
  have "sqrt (2 * pi) * sqrt (2 * pi) = 2 * pi" by simp
  then show ?thesis by (simp del: real_sqrt_mult_self)
qed

subsection \<open>Equality is reflexive\<close>

lemma list_eq_refl: "list_eq eq rs rs = Inr True"
  by (induction rs) simp_all

lemma dataclass_eq_refl: "dataclass_eq d h a a = Inr True"
  by (cases d; cases "h a") (simp_all add: list_eq_refl)

lemma direction_of_weight_winner: "direction_of_weight d h e (winner e) = Inr 1"
  by (simp add: direction_of_weight_def dataclass_eq_refl)

lemma dataclass_eq_SkillBasedRating:
  "h a = SkillBasedRating m v \<Longrightarrow> h b = SkillBasedRating m' v' \<Longrightarrow>
     dataclass_eq d h a b = Inr (m = m' \<and> v = v')"
  by (cases d) simp_all


subsection \<open>The scenario, evaluated\<close>

lemma scenario_reads:
  "mean d scenario_heap 0 = Inr 25" "mean d scenario_heap 1 = Inr 25"
  "variance d scenario_heap 0 = Inr (25 / 3)" "variance d scenario_heap 1 = Inr (25 / 3)"
  "beta_count d scenario_heap 0 = Inr 1" "beta_count d scenario_heap 1 = Inr 1"
  "sigma_variance_for_std_dev d scenario_heap 0 = Inr (625 / 9)"
  "sigma_variance_for_std_dev d scenario_heap 1 = Inr (625 / 9)"
  by (cases d; simp add: scenario_heap_def power2_eq_square)+

lemma scenario_radicand:
  "real_of_int (1 + 1) * (beta scenario_params)\<^sup>2 + 625 / 9 + 625 / 9 = 3125 / 18"
  by (simp add: beta_def scenario_params_def power2_eq_square)

lemma scenario_event_init:
  "Event_init d scenario_heap w 0 1 scenario_params [] =
     Inr \<lparr>weight = w, winner = 0, loser = 1, parameters = scenario_params, name = [],
          delta = 0, std_dev_of_performances = sqrt (3125 / 18), z_factor = 0,
          mean_scale = 2 / sqrt (2 * pi), variance_scale = 2 / pi\<rparr>"
proof -
  have "Event_delta d scenario_heap 0 1 = Inr 0"
    unfolding Event_delta_def scenario_reads by simp
  moreover have "Event_std_dev_of_performances d scenario_heap 0 1 scenario_params
      = Inr (sqrt (3125 / 18))"
    unfolding Event_std_dev_of_performances_def scenario_reads
    by (simp add: math_sqrt_def scenario_params_def power2_eq_square del: real_sqrt_divide)
  moreover have "Event_z_factor 0 (sqrt (3125 / 18)) = Inr 0"
    by (simp add: Event_z_factor_def py_div_def)
  moreover have "Event_mean_scale 0 = Inr (2 / sqrt (2 * pi))"
    by (simp add: Event_mean_scale_def py_div_def pdf_0 cdf_0)
  moreover have "Event_variance_scale (2 / sqrt (2 * pi)) 0 = 2 / pi"
    by (simp add: Event_variance_scale_def two_over_pi)
  ultimately show ?thesis
    unfolding Event_init_def by simp
qed

lemma scenario_event_eq:
  "scenario_event =
     \<lparr>weight = 1, winner = 0, loser = 1, parameters = scenario_params, name = [],
      delta = 0, std_dev_of_performances = sqrt (3125 / 18), z_factor = 0,
      mean_scale = 2 / sqrt (2 * pi), variance_scale = 2 / pi\<rparr>"
  unfolding scenario_event_def scenario_event_init by simp

subsection \<open>Bounds on pi from the Taylor polynomial of the cosine\<close>










subsection \<open>One update of a skill rating\<close>

lemma update_SkillBasedRating:
  assumes "h a = SkillBasedRating m v"
    and "direction_of_weight d h e a = Inr dir"
    and "std_dev_of_performances e \<noteq> 0"
  defines "s \<equiv> v ^ 2 + constant_additional_variance (parameters e) ^ 2"
  assumes "0 \<le> s * (1 - \<bar>weight e\<bar> * (variance_scale e * (s / std_dev_of_performances e ^ 2)))"
  shows "update_mean_and_variance d h a e =
     Inr (h(a := SkillBasedRating
            (m + (weight e * real_of_int dir) * (mean_scale e * (s / std_dev_of_performances e)))
            (sqrt (s * (1 - \<bar>weight e\<bar>
                * (variance_scale e * (s / std_dev_of_performances e ^ 2)))))))"
proof -
  let ?m' = "m + (weight e * real_of_int dir) * (mean_scale e * (s / std_dev_of_performances e))"
  let ?h' = "h(a := SkillBasedRating ?m' v)"
  have rd: "mean d h a = Inr m" "variance d h a = Inr v"
    using assms(1) by (cases d; simp)+
  have "standard_mean_update d h a e None = Inr ?m'"
    using assms(2,3) rd by (simp add: standard_mean_update_def py_div_def s_def tau_def)
  then have um: "update_mean d h a e None = Inr ?h'"
    using assms(1) by (cases d) simp_all
  have "variance d ?h' a = Inr v" by (cases d) simp_all
  then have "standard_variance_update d ?h' a e =
      Inr (sqrt (s * (1 - \<bar>weight e\<bar> * (variance_scale e * (s / std_dev_of_performances e ^ 2)))))"
    using assms(3,5)
    by (simp add: standard_variance_update_def py_div_def math_sqrt_def s_def Let_def)
  then have "update_variance d ?h' a e =
      Inr (?h'(a := SkillBasedRating ?m'
        (sqrt (s * (1 - \<bar>weight e\<bar> * (variance_scale e * (s / std_dev_of_performances e ^ 2)))))))"
    by (cases d) simp_all
  with um show ?thesis
    by (simp add: update_mean_and_variance_def)
qed

lemma radicand_negative_iff:
  fixes a x :: real
  assumes "0 < a"
  shows "a * (1 - 1 * x) < 0 \<longleftrightarrow> 1 < x"
  using assms by (simp add: mult_less_0_iff)

lemma scenario_event_fields:
  "weight scenario_event = 1" "\<bar>weight scenario_event\<bar> = 1"
  "winner scenario_event = 0" "loser scenario_event = 1"
  "mean_scale scenario_event = 2 / sqrt (2 * pi)"
  "variance_scale scenario_event = 2 / pi"
  "std_dev_of_performances scenario_event = sqrt (3125 / 18)"
  "(std_dev_of_performances scenario_event)\<^sup>2 = 3125 / 18"
  "delta scenario_event = 0" "z_factor scenario_event = 0"
  "(25 / 3)\<^sup>2 + (constant_additional_variance (parameters scenario_event))\<^sup>2 = 10001 / 144"
  "(25 / 3)\<^sup>2 + (tau (parameters scenario_event))\<^sup>2 = 10001 / 144"
  by (simp_all add: scenario_event_eq scenario_params_def tau_def power2_eq_square)

lemma sqrt_scenario_sq: "(sqrt (3125 / 18))\<^sup>2 = 3125 / 18"
  by simp

lemma scenario_ratio: "2 / pi * (10001 / 144 / (3125 / 18)) = 10001 / (12500 * pi)"
  by simp

lemma scenario_shrink:
  "0 \<le> 10001 / 144 * (1 - 1 * (2 / pi * (10001 / 144 / (3125 / 18))))"
  "10001 / 144 * (1 - 1 * (2 / pi * (10001 / 144 / (3125 / 18)))) < 625 / 9"
proof -
  let ?y = "10001 / (12500 * pi)"
  have "10001 < 12500 * pi" using pi_ge_two by simp
  then have le: "?y < 1" by simp
  have "12500 * pi < 12500 * 4" using pi_less_4 by simp
  then have "1 / 10001 * (12500 * pi) < 10001" by simp
  then have ge: "1 / 10001 < ?y" by (simp add: pos_less_divide_eq)
  have "0 \<le> 1 - 1 * ?y" using le by simp
  then show "0 \<le> 10001 / 144 * (1 - 1 * (2 / pi * (10001 / 144 / (3125 / 18))))"
    unfolding scenario_ratio by (intro mult_nonneg_nonneg) simp_all
  have "10001 / 144 * (1 - 1 * y) < 625 / 9" if "1 / 10001 < y" for y :: real
  proof -
    have "10001 / 144 * (1 / 10001) < 10001 / 144 * y"
      using that by (intro mult_strict_left_mono) simp_all
    then have "1 / 144 < 10001 / 144 * y" by simp
    moreover have "10001 / 144 * (1 - 1 * y) = 10001 / 144 - 10001 / 144 * y"
      by (simp add: right_diff_distrib)
    ultimately show ?thesis by linarith
  qed
  from this [OF ge]
  show "10001 / 144 * (1 - 1 * (2 / pi * (10001 / 144 / (3125 / 18)))) < 625 / 9"
    unfolding scenario_ratio .
qed

lemma scenario_step:
  assumes "h a = SkillBasedRating 25 (25 / 3)"
    and "direction_of_weight d h scenario_event a = Inr dir"
  shows "update_mean_and_variance d h a scenario_event =
     Inr (h(a := SkillBasedRating
            (25 + (1 * real_of_int dir)
                    * (2 / sqrt (2 * pi) * (10001 / 144 / sqrt (3125 / 18))))
            (sqrt (10001 / 144 * (1 - 1 * (2 / pi * (10001 / 144 / (3125 / 18))))))))"
proof -
  have c: "std_dev_of_performances scenario_event \<noteq> 0"
    by (simp add: scenario_event_fields)
  have nn: "0 \<le> ((25 / 3)\<^sup>2 + (constant_additional_variance (parameters scenario_event))\<^sup>2)
      * (1 - \<bar>weight scenario_event\<bar> * (variance_scale scenario_event
          * (((25 / 3)\<^sup>2 + (constant_additional_variance (parameters scenario_event))\<^sup>2)
              / (std_dev_of_performances scenario_event)\<^sup>2)))"
    unfolding scenario_event_fields abs_one sqrt_scenario_sq by (rule scenario_shrink(1))
  show ?thesis
    using update_SkillBasedRating [OF assms(1) assms(2) c nn]
    unfolding scenario_event_fields abs_one sqrt_scenario_sq .
qed

lemma scenario_gain_pos: "0 < 2 / sqrt (2 * pi) * (10001 / 144 / sqrt (3125 / 18))"
  by simp

lemma scenario_sigma_less:
  "sqrt (10001 / 144 * (1 - 1 * (2 / pi * (10001 / 144 / (3125 / 18))))) < 25 / 3"
proof (rule real_less_lsqrt)
  show "10001 / 144 * (1 - 1 * (2 / pi * (10001 / 144 / (3125 / 18)))) < (25 / 3)\<^sup>2"
    using scenario_shrink(2) by (simp add: power2_eq_square)
qed simp

subsection \<open>Sums of squares against squares of sums\<close>



subsection \<open>Non-negative variances\<close>





subsection \<open>Direction of the weight\<close>

text \<open>
  C1. \<open>direction_of_weight\<close> is specified to return \<open>+1\<close> exactly for the object that is
  the stored winner and \<open>-1\<close> for every other rating, the stored loser included. The
  comparison in the code is \<open>==\<close> on dataclasses, which compares fields: in the scenario of
  two new players the loser (address 1) is a different object from the winner (address 0)
  with the same mean and variance, and the code answers \<open>+1\<close> for it.
\<close>

theorem direction_of_weight_equal_valued_loser:
  "(1::addr) \<noteq> 0
     \<and> direction_of_weight 0 scenario_heap scenario_event (loser scenario_event) = Inr 1"
  by (simp add: direction_of_weight_def scenario_heap_def scenario_event_eq)

subsection \<open>Event construction\<close>

text \<open>
  C3. When the reads of the two ratings succeed, the performance spread \<open>c\<close> is not zero
  and the distribution function is not zero at \<open>z\<close>, constructing an event returns the
  event whose five statistics are: \<open>delta = winner.mean - loser.mean\<close>,
  \<open>c = sqrt ((winner.beta_count + loser.beta_count) * beta\<^sup>2 + winner.sigma + loser.sigma)\<close>,
  \<open>z_factor = delta / c\<close>, \<open>mean_scale = pdf z / cdf z\<close> and
  \<open>variance_scale = mean_scale * (mean_scale + z_factor)\<close>.
\<close>

theorem Event_init_statistics:
  fixes p :: Parameters
  assumes "mean d h win = Inr mw" and "mean d h los = Inr ml"
    and "beta_count d h win = Inr bw" and "beta_count d h los = Inr bl"
    and "sigma_variance_for_std_dev d h win = Inr sw"
    and "sigma_variance_for_std_dev d h los = Inr sl"
  defines "c \<equiv> sqrt (real_of_int (bw + bl) * beta p ^ 2 + sw + sl)"
  defines "z \<equiv> (mw - ml) / c"
  defines "v \<equiv> pdf z / cdf z"
  assumes "c \<noteq> 0" and "cdf z \<noteq> 0"
  shows "Event_init d h w win los p nm =
     Inr \<lparr>weight = w, winner = win, loser = los, parameters = p, name = nm,
          delta = mw - ml, std_dev_of_performances = c, z_factor = z,
          mean_scale = v, variance_scale = v * (v + z)\<rparr>"
proof -
  have "0 \<le> real_of_int (bw + bl) * beta p ^ 2 + sw + sl"
    using beta_count_nonneg [OF assms(3)] beta_count_nonneg [OF assms(4)]
      sigma_variance_nonneg [OF assms(5)] sigma_variance_nonneg [OF assms(6)]
    by simp
  then have "Event_std_dev_of_performances d h win los p = Inr c"
    using assms(3-6)
    by (simp add: Event_std_dev_of_performances_def math_sqrt_def c_def beta_def)
  moreover have "Event_delta d h win los = Inr (mw - ml)"
    using assms(1,2) by (simp add: Event_delta_def)
  moreover have "Event_z_factor (mw - ml) c = Inr z"
    using \<open>c \<noteq> 0\<close> by (simp add: Event_z_factor_def py_div_def z_def)
  moreover have "Event_mean_scale z = Inr v"
    using \<open>cdf z \<noteq> 0\<close> by (simp add: Event_mean_scale_def py_div_def v_def)
  ultimately show ?thesis
    by (simp add: Event_init_def Event_variance_scale_def)
qed

theorem Event_init_statistics_witness:
  "Event_init 0 scenario_heap 1 0 1 scenario_params [] =
     Inr \<lparr>weight = 1, winner = 0, loser = 1, parameters = scenario_params, name = [],
          delta = 0, std_dev_of_performances = sqrt (3125 / 18), z_factor = 0,
          mean_scale = 2 / sqrt (2 * pi), variance_scale = 2 / pi\<rparr>"
proof -
  have "sqrt (3125 / 18) \<noteq> 0" by simp
  moreover have "cdf (0 / sqrt (3125 / 18)) \<noteq> 0" by (simp add: cdf_0)
  ultimately show ?thesis
    using Event_init_statistics [OF scenario_reads(1,2,5,6,7,8),
        where p = scenario_params and w = 1 and nm = "[]" and d = 0]
    unfolding scenario_radicand
    by (simp add: pdf_0 cdf_0 two_over_pi del: real_sqrt_divide)
qed

subsection \<open>The update formulas\<close>

text \<open>
  C4. For a rating whose mean \<open>m\<close> and variance \<open>v\<close> can be read and an event with a
  non-zero performance spread, \<open>standard_mean_update\<close> with a given direction returns
  \<open>m + (weight * won_or_lost) * (mean_scale * ((v\<^sup>2 + tau\<^sup>2) / c))\<close>, and with no direction
  given it first asks \<open>direction_of_weight\<close> and then does the same. The function has no
  heap in its result: it changes neither the rating nor the event.
\<close>

theorem standard_mean_update_formula:
  assumes "mean d h r = Inr m" and "variance d h r = Inr v"
    and "std_dev_of_performances e \<noteq> 0"
  shows "standard_mean_update d h r e (Some wl) =
           Inr (m + (weight e * real_of_int wl)
                  * (mean_scale e * ((v ^ 2 + tau (parameters e) ^ 2) / std_dev_of_performances e)))
       \<and> standard_mean_update d h r e None =
           (case direction_of_weight d h e r of
              Inl err \<Rightarrow> Inl err
            | Inr dir \<Rightarrow> standard_mean_update d h r e (Some dir))"
  using assms by (simp add: standard_mean_update_def py_div_def split: sum.splits)

theorem standard_mean_update_formula_witness:
  "standard_mean_update 0 scenario_heap 0 scenario_event (Some (- 1)) =
     Inr (25 + (1 * real_of_int (- 1))
            * (2 / sqrt (2 * pi) * (((25 / 3)\<^sup>2 + (25 / 300)\<^sup>2) / sqrt (3125 / 18))))
   \<and> standard_mean_update 0 scenario_heap 0 scenario_event None =
     standard_mean_update 0 scenario_heap 0 scenario_event (Some 1)"
proof -
  have c: "std_dev_of_performances scenario_event \<noteq> 0"
    by (simp add: scenario_event_eq)
  have dir: "direction_of_weight 0 scenario_heap scenario_event 0 = Inr 1"
    using direction_of_weight_winner [of 0 scenario_heap scenario_event]
    by (simp add: scenario_event_eq)
  have fields: "weight scenario_event = 1" "mean_scale scenario_event = 2 / sqrt (2 * pi)"
    "std_dev_of_performances scenario_event = sqrt (3125 / 18)"
    "tau (parameters scenario_event) = 25 / 300"
    by (simp_all add: scenario_event_eq tau_def scenario_params_def)
  show ?thesis
    using standard_mean_update_formula [OF scenario_reads(1) scenario_reads(3) c, of 0 "- 1"]
      standard_mean_update_formula [OF scenario_reads(1) scenario_reads(3) c, of 0 1]
    unfolding dir fields by simp
qed

text \<open>
  C5. For a rating whose variance \<open>v\<close> can be read and an event with a non-zero
  performance spread, \<open>standard_variance_update\<close> returns the square root of
  \<open>(v\<^sup>2 + tau\<^sup>2) * (1 - |weight| * (variance_scale * ((v\<^sup>2 + tau\<^sup>2) / c\<^sup>2)))\<close>, and raises
  \<open>ValueError\<close>, the domain error of \<open>math.sqrt\<close>, when that number is negative.
\<close>

theorem standard_variance_update_formula:
  assumes "variance d h r = Inr v" and "std_dev_of_performances e \<noteq> 0"
  defines "a \<equiv> v ^ 2 + tau (parameters e) ^ 2"
  defines "radicand \<equiv>
     a * (1 - \<bar>weight e\<bar> * (variance_scale e * (a / std_dev_of_performances e ^ 2)))"
  shows "standard_variance_update d h r e =
           (if radicand < 0 then Inl ValueError else Inr (sqrt radicand))"
  using assms
  by (simp add: standard_variance_update_def py_div_def math_sqrt_def tau_def Let_def)

theorem standard_variance_update_formula_witness:
  "standard_variance_update 0 scenario_heap 0 scenario_event =
     Inr (sqrt (10001 / 144 * (1 - 1 * (2 / pi * (10001 / 144 / (3125 / 18))))))
   \<and> standard_variance_update 0 scenario_heap 0
       (scenario_event\<lparr>parameters := drifting_params\<rparr>) = Inl ValueError"
proof
  have c: "std_dev_of_performances scenario_event \<noteq> 0"
    by (simp add: scenario_event_fields)
  note th = standard_variance_update_formula [OF scenario_reads(3) c, of 0,
      unfolded scenario_event_fields abs_one sqrt_scenario_sq]
  have "\<not> 10001 / 144 * (1 - 1 * (2 / pi * (10001 / 144 / (3125 / 18)))) < 0"
    unfolding not_less by (rule scenario_shrink(1))
  then show "standard_variance_update 0 scenario_heap 0 scenario_event =
      Inr (sqrt (10001 / 144 * (1 - 1 * (2 / pi * (10001 / 144 / (3125 / 18))))))"
    unfolding th by (simp only: if_False)
next
  let ?e = "scenario_event\<lparr>parameters := drifting_params\<rparr>"
  have c: "std_dev_of_performances ?e \<noteq> 0"
    by (simp add: scenario_event_fields)
  have a: "(25 / 3)\<^sup>2 + (tau (parameters ?e))\<^sup>2 = 90625 / 9"
    by (simp add: tau_def drifting_params_def power2_eq_square)
  have fields: "\<bar>weight ?e\<bar> = 1" "variance_scale ?e = 2 / pi"
    "(std_dev_of_performances ?e)\<^sup>2 = 3125 / 18"
    by (simp_all add: scenario_event_fields)
  note th = standard_variance_update_formula [OF scenario_reads(3) c, of 0,
      unfolded a fields]
  have ratio: "2 / pi * (90625 / 9 / (3125 / 18)) = 116 / pi" by simp
  have "1 < 116 / pi" using pi_less_4 by (simp add: pos_less_divide_eq)
  then have big: "1 < 2 / pi * (90625 / 9 / (3125 / 18))" unfolding ratio .
  have "90625 / 9 * (1 - 1 * (2 / pi * (90625 / 9 / (3125 / 18)))) < 0"
    by (rule radicand_negative_iff [THEN iffD2, OF _ big]) simp
  then show "standard_variance_update 0 scenario_heap 0 ?e = Inl ValueError"
    unfolding th by (simp only: if_True)
qed

subsection \<open>Locked constant ratings\<close>

text \<open>
  C7. On a \<open>ConstantRating\<close> with \<open>is_set\<close> true, \<open>update_mean\<close>, \<open>update_variance\<close> and
  \<open>update_mean_and_variance\<close> return normally for every event and leave the heap as it
  was, so the mean and the variance of the rating are unchanged.
\<close>

theorem ConstantRating_is_set_frozen:
  assumes "h a = ConstantRating True v m"
  shows "update_mean d h a e won_or_lost = Inr h
       \<and> update_variance d h a e = Inr h
       \<and> update_mean_and_variance d h a e = Inr h"
  using assms by (cases d) (simp_all add: update_mean_and_variance_def)

theorem ConstantRating_is_set_frozen_witness:
  "team_heap 3 = ConstantRating True 4 20
     \<and> update_mean 0 team_heap 3 scenario_event None = Inr team_heap
     \<and> update_variance 0 team_heap 3 scenario_event = Inr team_heap
     \<and> update_mean_and_variance 0 team_heap 3 scenario_event = Inr team_heap"
proof -
  have locked: "team_heap 3 = ConstantRating True 4 20"
    by (simp add: team_heap_def)
  from ConstantRating_is_set_frozen [of team_heap 3 4 20 0 scenario_event None, OF locked]
    locked
  show ?thesis by simp
qed

subsection \<open>Totalities\<close>

text \<open>
  C8. For a totality with the children \<open>[c1, c2]\<close>, in any heap: when the children's
  means read as \<open>m1\<close> and \<open>m2\<close>, the totality's mean reads as \<open>m1 + m2\<close>; likewise for
  \<open>beta_count\<close> and for \<open>variance\<close>. The heap is a parameter of every read, so the sums
  follow every update of the children.
\<close>

theorem RateableTotality_derived_sums:
  assumes "h t = RateableTotality nm [c1, c2]"
  shows "(mean d h c1 = Inr m1 \<and> mean d h c2 = Inr m2 \<longrightarrow> mean (Suc d) h t = Inr (m1 + m2))
       \<and> (beta_count d h c1 = Inr b1 \<and> beta_count d h c2 = Inr b2
            \<longrightarrow> beta_count (Suc d) h t = Inr (b1 + b2))
       \<and> (variance d h c1 = Inr v1 \<and> variance d h c2 = Inr v2
            \<longrightarrow> variance (Suc d) h t = Inr (v1 + v2))"
  using assms by (simp add: py_sum_def)

theorem RateableTotality_derived_sums_witness:
  "mean (Suc 0) team_heap 2 = Inr (25 + 30)
     \<and> beta_count (Suc 0) team_heap 2 = Inr (1 + 0)
     \<and> variance (Suc 0) team_heap 2 = Inr (25 / 3 + 2)"
proof -
  have t: "team_heap 2 = RateableTotality ''team'' [0, 1]"
    by (simp add: team_heap_def)
  have reads: "mean 0 team_heap 0 = Inr 25" "mean 0 team_heap 1 = Inr 30"
    "beta_count 0 team_heap 0 = Inr 1" "beta_count 0 team_heap 1 = Inr 0"
    "variance 0 team_heap 0 = Inr (25 / 3)" "variance 0 team_heap 1 = Inr 2"
    by (simp_all add: team_heap_def)
  from RateableTotality_derived_sums
      [of team_heap 2 "''team''" 0 1 0 25 30 1 0 "25 / 3" 2, OF t] reads
  show ?thesis by blast
qed

subsection \<open>The variance update does not look at the direction\<close>

text \<open>
  C10. \<open>standard_variance_update\<close> takes no direction. It reads the rating's variance, the
  absolute value of the event's weight, the event's \<open>variance_scale\<close> and
  \<open>std_dev_of_performances\<close>, and \<open>tau\<close>, and nothing else: two calls that agree on these
  five return the same, whatever the ratings, the heaps and the other fields of the events
  are. So two ratings of equal variance get the same result from one event, whichever is
  the winner; the result does not change when the sign of the weight is flipped or when
  the event's winner and loser are exchanged; and the result is the square root of
  \<open>(v\<^sup>2 + tau\<^sup>2) * (1 - |weight| * (variance_scale * ((v\<^sup>2 + tau\<^sup>2) / c\<^sup>2)))\<close>, with
  \<open>ZeroDivisionError\<close> for \<open>c = 0\<close> and \<open>ValueError\<close> for a negative radicand.
\<close>

theorem standard_variance_update_direction_free:
  "(variance da ha ra = variance d h r
      \<and> \<bar>weight ea\<bar> = \<bar>weight e\<bar>
      \<and> variance_scale ea = variance_scale e
      \<and> std_dev_of_performances ea = std_dev_of_performances e
      \<and> tau (parameters ea) = tau (parameters e)
      \<longrightarrow> standard_variance_update da ha ra ea = standard_variance_update d h r e)
   \<and> (variance d h r1 = variance d h r2
      \<longrightarrow> standard_variance_update d h r1 e = standard_variance_update d h r2 e)
   \<and> standard_variance_update d h r (e\<lparr>weight := - weight e\<rparr>)
       = standard_variance_update d h r e
   \<and> standard_variance_update d h r (e\<lparr>winner := loser e, loser := winner e\<rparr>)
       = standard_variance_update d h r e
   \<and> (variance d h r = Inr v
      \<longrightarrow> standard_variance_update d h r e =
          (if std_dev_of_performances e = 0 then Inl ZeroDivisionError
           else if (v\<^sup>2 + (tau (parameters e))\<^sup>2)
                    * (1 - \<bar>weight e\<bar>
                        * (variance_scale e
                            * ((v\<^sup>2 + (tau (parameters e))\<^sup>2)
                                / (std_dev_of_performances e)\<^sup>2))) < 0
                then Inl ValueError
           else Inr (sqrt ((v\<^sup>2 + (tau (parameters e))\<^sup>2)
                    * (1 - \<bar>weight e\<bar>
                        * (variance_scale e
                            * ((v\<^sup>2 + (tau (parameters e))\<^sup>2)
                                / (std_dev_of_performances e)\<^sup>2)))))))"
proof -
  have same_reads: "standard_variance_update d2 h2 r2 e2 = standard_variance_update d1 h1 r1 e1"
    if "variance d2 h2 r2 = variance d1 h1 r1" "\<bar>weight e2\<bar> = \<bar>weight e1\<bar>"
      "variance_scale e2 = variance_scale e1"
      "std_dev_of_performances e2 = std_dev_of_performances e1"
      "tau (parameters e2) = tau (parameters e1)"
    for d1 d2 h1 h2 r1 r2 e1 e2
    unfolding standard_variance_update_def that that(5) [unfolded tau_def] by (rule refl)
  show ?thesis
  proof (intro conjI impI)
  assume "variance da ha ra = variance d h r
      \<and> \<bar>weight ea\<bar> = \<bar>weight e\<bar>
      \<and> variance_scale ea = variance_scale e
      \<and> std_dev_of_performances ea = std_dev_of_performances e
      \<and> tau (parameters ea) = tau (parameters e)"
  then show "standard_variance_update da ha ra ea = standard_variance_update d h r e"
    by (intro same_reads) (elim conjE, assumption)+
next
  assume "variance d h r1 = variance d h r2"
  then show "standard_variance_update d h r1 e = standard_variance_update d h r2 e"
    by (intro same_reads) (assumption | rule refl)+
next
  show "standard_variance_update d h r (e\<lparr>weight := - weight e\<rparr>)
      = standard_variance_update d h r e"
    by (rule same_reads) simp_all
next
  show "standard_variance_update d h r (e\<lparr>winner := loser e, loser := winner e\<rparr>)
      = standard_variance_update d h r e"
    by (rule same_reads) simp_all
next
  assume "variance d h r = Inr v"
  then show "standard_variance_update d h r e =
          (if std_dev_of_performances e = 0 then Inl ZeroDivisionError
           else if (v\<^sup>2 + (tau (parameters e))\<^sup>2)
                    * (1 - \<bar>weight e\<bar>
                        * (variance_scale e
                            * ((v\<^sup>2 + (tau (parameters e))\<^sup>2)
                                / (std_dev_of_performances e)\<^sup>2))) < 0
                then Inl ValueError
           else Inr (sqrt ((v\<^sup>2 + (tau (parameters e))\<^sup>2)
                    * (1 - \<bar>weight e\<bar>
                        * (variance_scale e
                            * ((v\<^sup>2 + (tau (parameters e))\<^sup>2)
                                / (std_dev_of_performances e)\<^sup>2))))))"
    by (simp add: standard_variance_update_def py_div_def math_sqrt_def tau_def Let_def)
  qed
qed

theorem standard_variance_update_direction_free_witness:
  "standard_variance_update 0 scenario_heap 1
       (scenario_event\<lparr>weight := - 1, winner := 1, loser := 0\<rparr>)
     = standard_variance_update 0 scenario_heap 0 scenario_event
   \<and> standard_variance_update 0 scenario_heap 0 scenario_event
     = standard_variance_update 0 scenario_heap 1 scenario_event
   \<and> standard_variance_update 0 scenario_heap 0 scenario_event =
       Inr (sqrt (10001 / 144 * (1 - 1 * (2 / pi * (10001 / 144 / (3125 / 18))))))
   \<and> sqrt (10001 / 144 * (1 - 1 * (2 / pi * (10001 / 144 / (3125 / 18))))) < 25 / 3"
proof -
  let ?ea = "scenario_event\<lparr>weight := - 1, winner := 1, loser := 0\<rparr>"
  note th = standard_variance_update_direction_free
    [where da = 0 and ha = scenario_heap and ra = 1 and ea = ?ea
       and d = 0 and h = scenario_heap and r = 0 and e = scenario_event
       and ?r1.0 = 0 and ?r2.0 = 1 and v = "25 / 3"]
  have reads: "variance 0 scenario_heap 1 = variance 0 scenario_heap 0"
    unfolding scenario_reads ..
  have agree: "\<bar>weight ?ea\<bar> = \<bar>weight scenario_event\<bar>"
    "variance_scale ?ea = variance_scale scenario_event"
    "std_dev_of_performances ?ea = std_dev_of_performances scenario_event"
    "tau (parameters ?ea) = tau (parameters scenario_event)"
    by (simp_all add: scenario_event_fields)
  have a: "standard_variance_update 0 scenario_heap 1 ?ea
      = standard_variance_update 0 scenario_heap 0 scenario_event"
    by (rule th [THEN conjunct1, rule_format]) (intro conjI reads agree)
  have b: "standard_variance_update 0 scenario_heap 0 scenario_event
      = standard_variance_update 0 scenario_heap 1 scenario_event"
    by (rule th [THEN conjunct2, THEN conjunct1, rule_format]) (rule reads [symmetric])
  have c: "std_dev_of_performances scenario_event \<noteq> 0"
    by (simp add: scenario_event_fields)
  have nn: "\<not> 10001 / 144 * (1 - 1 * (2 / pi * (10001 / 144 / (3125 / 18)))) < 0"
    unfolding not_less by (rule scenario_shrink(1))
  note val = th [THEN conjunct2, THEN conjunct2, THEN conjunct2, THEN conjunct2,
      rule_format, OF scenario_reads(3),
      unfolded scenario_event_fields abs_one sqrt_scenario_sq]
  have cv: "standard_variance_update 0 scenario_heap 0 scenario_event =
      Inr (sqrt (10001 / 144 * (1 - 1 * (2 / pi * (10001 / 144 / (3125 / 18))))))"
    unfolding val using nn by simp
  show ?thesis
    by (intro conjI) (rule a b cv scenario_sigma_less)+
qed

subsection \<open>The weight is not validated\<close>

text \<open>
  C6, as stated, asks for a domain error when an event is constructed with a weight
  outside \<open>(0, 1]\<close>. The constructor stores the weight and never looks at it: with the
  weights \<open>2\<close>, \<open>0\<close> and \<open>-1\<close> the scenario's event is constructed normally.
\<close>

theorem Event_init_weight_unchecked_counterexample:
  "map_sum id weight (Event_init 0 scenario_heap 2 0 1 scenario_params []) = Inr 2
   \<and> map_sum id weight (Event_init 0 scenario_heap 0 0 1 scenario_params []) = Inr 0
   \<and> map_sum id weight (Event_init 0 scenario_heap (- 1) 0 1 scenario_params []) = Inr (- 1)"
  unfolding scenario_event_init by simp

text \<open>
  C6, amended. Constructing an event does not depend on the weight: with any two weights
  it raises the same error or returns events that differ in the stored weight only, so
  no weight is rejected and the five statistics are those of any other weight.
\<close>

theorem Event_init_ignores_weight:
  "Event_init d h w' win los p nm =
     map_sum id (\<lambda>e. e\<lparr>weight := w'\<rparr>) (Event_init d h w win los p nm)"
  by (simp add: Event_init_def split: sum.splits)

theorem Event_init_ignores_weight_witness:
  "Event_init 0 scenario_heap 2 0 1 scenario_params [] = Inr (scenario_event\<lparr>weight := 2\<rparr>)"
proof -
  have init: "Event_init 0 scenario_heap 1 0 1 scenario_params [] = Inr scenario_event"
    by (simp only: scenario_event_init scenario_event_eq)
  show ?thesis
    unfolding Event_init_ignores_weight [of 0 scenario_heap 2 0 1 scenario_params "[]" 1] init
    by simp
qed

subsection \<open>The spread of a totality\<close>




subsection \<open>Two new players\<close>

text \<open>
  The order of the two updates matters in this scenario. Before any update the loser
  equals the winner field by field, so an update of the loser first takes it for the
  winner and raises its mean.
\<close>

lemma scenario_loser_first:
  "\<exists>h1 ml vl. update_mean_and_variance d scenario_heap 1 scenario_event = Inr h1
     \<and> h1 1 = SkillBasedRating ml vl \<and> 25 < ml"
proof -
  let ?g = "2 / sqrt (2 * pi) * (10001 / 144 / sqrt (3125 / 18))"
  let ?s = "sqrt (10001 / 144 * (1 - 1 * (2 / pi * (10001 / 144 / (3125 / 18)))))"
  let ?ml = "25 + (1 * real_of_int 1) * ?g"
  let ?h1 = "scenario_heap(1 := SkillBasedRating ?ml ?s)"
  have we: "winner scenario_event = 0" by (simp add: scenario_event_fields)
  have w: "scenario_heap (winner scenario_event) = SkillBasedRating 25 (25 / 3)"
    unfolding we by (simp add: scenario_heap_def)
  have l: "scenario_heap 1 = SkillBasedRating 25 (25 / 3)"
    by (simp add: scenario_heap_def)
  have dir: "direction_of_weight d scenario_heap scenario_event 1 = Inr 1"
    unfolding direction_of_weight_def dataclass_eq_SkillBasedRating [OF l w] by simp
  have step: "update_mean_and_variance d scenario_heap 1 scenario_event = Inr ?h1"
    by (rule scenario_step [OF l dir])
  have v: "?h1 1 = SkillBasedRating ?ml ?s" by simp
  have up: "25 < ?ml" using scenario_gain_pos by simp
  show ?thesis
    by (intro exI conjI) (rule step v up)+
qed


end
